theory Spec2Isabelle
  imports Main "HOL-Library.AList"
begin

section \<open>Python values and dictionaries\<close>

text \<open>
  The adapters work on decoded JSON: \<open>None\<close>, booleans, numbers, strings, lists and
  dictionaries with string keys. A Python \<open>dict\<close> keeps its keys in insertion order and
  that order is visible (\<open>items()\<close>), so a dictionary is an association list. No function
  of the adapters inspects a number, so numbers are integers here.
\<close>

datatype pyval =
    PNone
  | PBool bool
  | PInt int
  | PStr string
  | PList "pyval list"
  | PDict "(string \<times> pyval) list"

type_synonym pydict = "(string \<times> pyval) list"

text \<open>The exceptions the modelled code can raise.\<close>

datatype py_error =
    KeyError
  | TypeError
  | AttributeError
  | IndexError
  | ValueError
  | JsonPathError

text \<open>\<open>k in d\<close>, \<open>d.get(k)\<close>, \<open>d[k] = v\<close> (an existing key keeps its place, a new key
  goes last), \<open>d.update(other)\<close> and \<open>dict(items)\<close>.\<close>

definition dict_contains :: "('k \<times> 'v) list \<Rightarrow> 'k \<Rightarrow> bool" where
  "dict_contains d k = (k \<in> set (map fst d))"

definition dict_get :: "('k \<times> 'v) list \<Rightarrow> 'k \<Rightarrow> 'v option" where
  "dict_get d k = map_of d k"

definition dict_set :: "('k \<times> 'v) list \<Rightarrow> 'k \<Rightarrow> 'v \<Rightarrow> ('k \<times> 'v) list" where
  "dict_set d k v = AList.update k v d"

definition dict_update :: "('k \<times> 'v) list \<Rightarrow> ('k \<times> 'v) list \<Rightarrow> ('k \<times> 'v) list" where
  "dict_update d other = foldl (\<lambda>acc (k, v). dict_set acc k v) d other"

definition dict_of :: "('k \<times> 'v) list \<Rightarrow> ('k \<times> 'v) list" where
  "dict_of items = dict_update [] items"

section \<open>Field filters\<close>

text \<open>
  \<^verbatim>\<open>
  class FieldFilters:
      filters = {"strip_html": strip_html}

      @classmethod
      def execute(cls, name, value):
          if name not in FieldFilters.filters:
              return value
          return FieldFilters.filters[name](value)
  \<close>
  \<open>strip_html\<close> calls the \<open>bleach\<close> library; it is a parameter of the model. The
  membership test hashes \<open>name\<close>: a list or a dictionary is unhashable and raises
  \<open>TypeError\<close>, any other value that is not a registered string is simply absent.
\<close>

type_synonym field_filter = "pyval \<Rightarrow> py_error + pyval"

definition filters :: "field_filter \<Rightarrow> (string \<times> field_filter) list" where
  "filters strip_html = [(''strip_html'', strip_html)]"

fun execute :: "field_filter \<Rightarrow> pyval \<Rightarrow> pyval \<Rightarrow> py_error + pyval" where
  "execute strip_html (PList _) v = Inl TypeError"
| "execute strip_html (PDict _) v = Inl TypeError"
| "execute strip_html (PStr name) v =
     (if \<not> dict_contains (filters strip_html) name then Inr v
      else (case dict_get (filters strip_html) name of
              None \<Rightarrow> Inl KeyError
            | Some f \<Rightarrow> f v))"
| "execute strip_html _ v = Inr v"

section \<open>JSON path extraction\<close>

text \<open>
  \<^verbatim>\<open>
  def get_json_path_value(expression: str, item: dict) -> Union[str, List[Any]]:
      if expression is None:
          return ""
      jsonpath_expr = parse(expression)
      v = jsonpath_expr.find(item)
      if len(v) == 0:
          return ""
      if len(v) == 1:
          return v[0].value
      return [x.value for x in v]
  \<close>
  \<open>parse\<close> and \<open>find\<close> belong to the \<open>jsonpath_ng\<close> library. The model takes them as one
  parameter \<open>jsonpath\<close>: given the expression (a Python value, a string when the
  configuration is well-typed) and the document, the values of the matches in the order
  \<open>find\<close> returns them, or the error \<open>parse\<close> raises.
\<close>

type_synonym jsonpath = "pyval \<Rightarrow> pyval \<Rightarrow> py_error + pyval list"

definition get_json_path_value :: "jsonpath \<Rightarrow> pyval \<Rightarrow> pyval \<Rightarrow> py_error + pyval" where
  "get_json_path_value jsonpath expression item =
     (if expression = PNone then Inr (PStr '''')
      else
        (case jsonpath expression item of
           Inl err \<Rightarrow> Inl err
         | Inr v \<Rightarrow>
             if length v = 0 then Inr (PStr '''')
             else if length v = 1 then Inr (v ! 0)
             else Inr (PList v)))"

section \<open>Flattening\<close>

text \<open>
  \<^verbatim>\<open>
  def flatten(dictionary, parent_key=False, separator="."):
      items = []
      for key, value in dictionary.items():
          new_key = str(parent_key) + separator + key if parent_key else key
          if isinstance(value, collections.abc.MutableMapping):
              items.extend(flatten(value, False, separator).items())
          else:
              items.append((new_key, value))
      return dict(items)
  \<close>
  \<open>parent_key\<close> is \<open>False\<close> (here \<open>None\<close>) or a string; the empty string is falsy as
  well. The recursive call passes \<open>False\<close>, not \<open>new_key\<close>. \<open>flatten_items\<close> is the list
  \<open>items\<close> the loop builds.
\<close>

definition new_key :: "string option \<Rightarrow> string \<Rightarrow> string \<Rightarrow> string" where
  "new_key parent_key separator key =
     (case parent_key of
        None \<Rightarrow> key
      | Some p \<Rightarrow> if p \<noteq> [] then p @ separator @ key else key)"

fun flatten :: "pydict \<Rightarrow> string option \<Rightarrow> string \<Rightarrow> pydict"
  and flatten_items :: "pydict \<Rightarrow> string option \<Rightarrow> string \<Rightarrow> pydict" where
  "flatten dictionary parent_key separator =
     dict_of (flatten_items dictionary parent_key separator)"
| "flatten_items [] parent_key separator = []"
| "flatten_items ((key, PDict value) # rest) parent_key separator =
     flatten value None separator @ flatten_items rest parent_key separator"
| "flatten_items ((key, value) # rest) parent_key separator =
     (new_key parent_key separator key, value) # flatten_items rest parent_key separator"

text \<open>The entries of a nested dictionary that are not dictionaries themselves, each
  under its own key, in the order a depth-first traversal meets them.\<close>

fun leaves :: "pydict \<Rightarrow> pydict" where
  "leaves [] = []"
| "leaves ((key, PDict value) # rest) = leaves value @ leaves rest"
| "leaves ((key, value) # rest) = (key, value) # leaves rest"

fun is_dict :: "pyval \<Rightarrow> bool" where
  "is_dict (PDict _) = True"
| "is_dict _ = False"

section \<open>Field mapping\<close>

text \<open>
  \<^verbatim>\<open>
  def mapFields(item: dict, mappings: dict) -> dict:
      results = {}
      for key, value in mappings.items():
          if isinstance(value, dict):  # have a complex assignment
              expression = value.get("path", None)
              field_value = get_json_path_value(expression, item)
              filters = value.get("filters", [])
              for filter in filters:
                  field_value = FieldFilters.execute(filter, field_value)
              results[key] = field_value
          elif "path:" in value:
              expression = value.split("path:")[1]
              field_value = get_json_path_value(expression, item)
              results[key] = field_value
          else:
              results[key] = value
      return results
  \<close>
  \<open>str_contains\<close> is \<open>sub in s\<close> on strings, \<open>str_split\<close> is \<open>s.split(sep)\<close> for a non-empty
  separator (\<open>split_from\<close> scans with the characters of a matched separator still to
  skip and the segment read so far), \<open>py_iter\<close> is what a \<open>for\<close> loop iterates over.
  \<open>map_field\<close> is the body of the loop for one spec value: \<open>"path:" in value\<close> is a
  substring test on a string, a membership test on a list, and raises \<open>TypeError\<close> on
  \<open>None\<close>, a boolean or a number.
\<close>


fun str_contains :: "string \<Rightarrow> string \<Rightarrow> bool" where
  "str_contains sub [] = (sub = [])"
| "str_contains sub (c # cs) = (take (length sub) (c # cs) = sub \<or> str_contains sub cs)"

fun split_from :: "string \<Rightarrow> nat \<Rightarrow> string \<Rightarrow> string \<Rightarrow> string list" where
  "split_from sep skip cur [] = [cur]"
| "split_from sep (Suc n) cur (c # cs) = split_from sep n cur cs"
| "split_from sep 0 cur (c # cs) =
     (if take (length sep) (c # cs) = sep
      then cur # split_from sep (length sep - 1) [] cs
      else split_from sep 0 (cur @ [c]) cs)"

definition str_split :: "string \<Rightarrow> string \<Rightarrow> string list" where
  "str_split s sep = split_from sep 0 [] s"


fun py_iter :: "pyval \<Rightarrow> py_error + pyval list" where
  "py_iter (PList xs) = Inr xs"
| "py_iter (PStr s) = Inr (map (\<lambda>c. PStr [c]) s)"
| "py_iter (PDict d) = Inr (map (\<lambda>(k, v). PStr k) d)"
| "py_iter _ = Inl TypeError"

fun apply_filters :: "field_filter \<Rightarrow> pyval list \<Rightarrow> pyval \<Rightarrow> py_error + pyval" where
  "apply_filters strip_html [] field_value = Inr field_value"
| "apply_filters strip_html (f # fs) field_value =
     (case execute strip_html f field_value of
        Inl err \<Rightarrow> Inl err
      | Inr v \<Rightarrow> apply_filters strip_html fs v)"

fun map_field :: "field_filter \<Rightarrow> jsonpath \<Rightarrow> pydict \<Rightarrow> pyval \<Rightarrow> py_error + pyval" where
  "map_field strip_html jsonpath item (PDict value) =
     (let expression = (case dict_get value ''path'' of None \<Rightarrow> PNone | Some e \<Rightarrow> e) in
      case get_json_path_value jsonpath expression (PDict item) of
        Inl err \<Rightarrow> Inl err
      | Inr field_value \<Rightarrow>
          (case py_iter (case dict_get value ''filters'' of None \<Rightarrow> PList [] | Some fs \<Rightarrow> fs) of
             Inl err \<Rightarrow> Inl err
           | Inr fs \<Rightarrow> apply_filters strip_html fs field_value))"
| "map_field strip_html jsonpath item (PStr value) =
     (if str_contains ''path:'' value
      then (case str_split value ''path:'' of
              before # expression # more \<Rightarrow>
                get_json_path_value jsonpath (PStr expression) (PDict item)
            | _ \<Rightarrow> Inl IndexError)
      else Inr (PStr value))"
| "map_field strip_html jsonpath item (PList value) =
     (if PStr ''path:'' \<in> set value then Inl AttributeError else Inr (PList value))"
| "map_field strip_html jsonpath item _ = Inl TypeError"

fun mapFields_loop ::
  "field_filter \<Rightarrow> jsonpath \<Rightarrow> pydict \<Rightarrow> pydict \<Rightarrow> pydict \<Rightarrow> py_error + pydict" where
  "mapFields_loop strip_html jsonpath item [] results = Inr results"
| "mapFields_loop strip_html jsonpath item ((key, value) # rest) results =
     (case map_field strip_html jsonpath item value of
        Inl err \<Rightarrow> Inl err
      | Inr field_value \<Rightarrow>
          mapFields_loop strip_html jsonpath item rest (dict_set results key field_value))"

definition mapFields :: "field_filter \<Rightarrow> jsonpath \<Rightarrow> pydict \<Rightarrow> pydict \<Rightarrow> py_error + pydict" where
  "mapFields strip_html jsonpath item mappings = mapFields_loop strip_html jsonpath item mappings []"

section \<open>Per-item overrides\<close>

text \<open>
  \<^verbatim>\<open>
  def setPerItemValues(items: dict, perItemValues: dict):
      for id, values in perItemValues.items():
          if id in items:
              for k, v in values.items():
                  if k in items[id]["gen3_discovery"]:
                      items[id]["gen3_discovery"][k] = v
  \<close>
  \<open>items\<close> is what a \<open>normalizeToGen3MDSFields\<close> built: each entry is
  \<open>{"_guid_type": ..., "gen3_discovery": ...}\<close>. The Python mutates \<open>items\<close> in place; the
  model returns the new dictionary. \<open>set_item_values\<close> is the inner loop, \<open>set_item\<close> one
  round of the outer loop.
\<close>

record mds_entry =
  guid_type :: string
  gen3_discovery :: pydict

definition set_item_values :: "pydict \<Rightarrow> pydict \<Rightarrow> pydict" where
  "set_item_values discovery values =
     foldl (\<lambda>d (k, v). if dict_contains d k then dict_set d k v else d) discovery values"

definition set_item :: "('k \<times> mds_entry) list \<Rightarrow> 'k \<Rightarrow> pydict \<Rightarrow> ('k \<times> mds_entry) list" where
  "set_item items ident values =
     (if dict_contains items ident then
        (case dict_get items ident of
           None \<Rightarrow> items
         | Some entry \<Rightarrow>
             dict_set items ident
               (entry\<lparr>gen3_discovery := set_item_values (gen3_discovery entry) values\<rparr>))
      else items)"

definition setPerItemValues ::
  "('k \<times> mds_entry) list \<Rightarrow> ('k \<times> pydict) list \<Rightarrow> ('k \<times> mds_entry) list" where
  "setPerItemValues items perItemValues =
     foldl (\<lambda>its (ident, values). set_item its ident values) items perItemValues"

text \<open>What an entry may become: same type tag, same keys in the same order, every value
  the old one or one the override entries of this id hold under that key.\<close>

definition overridden :: "pydict set \<Rightarrow> mds_entry \<Rightarrow> mds_entry \<Rightarrow> bool" where
  "overridden vss e e' \<longleftrightarrow>
     guid_type e' = guid_type e \<and>
     map fst (gen3_discovery e') = map fst (gen3_discovery e) \<and>
     (\<forall>k v. (k, v) \<in> set (gen3_discovery e') \<longrightarrow>
        (k, v) \<in> set (gen3_discovery e) \<or> (\<exists>vs \<in> vss. (k, v) \<in> set vs))"

section \<open>Adapters: normalization\<close>

text \<open>
  The three adapters' \<open>addGen3ExpectedFields\<close> start alike:
  \<^verbatim>\<open>
      results = item
      if mappings is not None:
          mapped_fields = RemoteMetadataAdapter.mapFields(item, mappings)
          if keepOriginalFields:
              results.update(mapped_fields)
          else:
              results = mapped_fields
  \<close>
  \<open>results.update\<close> mutates \<open>item\<close>, which the caller goes on reading, so
  \<open>add_mapped_fields\<close> returns the item as it is afterwards together with \<open>results\<close>;
  \<open>results_is_item\<close> says when the two are one object.

  \<^verbatim>\<open>
  class PDAPS(RemoteMetadataAdapter):
      def addGen3ExpectedFields(item, mappings, keepOriginalFields):
          ...
          if isinstance(results["investigators"], list):
              results["investigators"] = results["investigators"].join(", ")
          return results

      def normalizeToGen3MDSFields(self, data, **kwargs) -> Tuple[Dict, str]:
          mappings = kwargs.get("mappings", None)
          keepOriginalFields = kwargs.get("keepOriginalFields", True)
          results = {}
          for item in data["results"]:
              normalized_item = PDAPS.addGen3ExpectedFields(
                  item, mappings, keepOriginalFields)
              if "display_id" not in item:
                  continue
              results[item["display_id"]] = {
                  "_guid_type": "discovery_metadata",
                  "gen3_discovery": normalized_item,
              }
          perItemValues = kwargs.get("perItemValues", None)
          if perItemValues is not None:
              RemoteMetadataAdapter.setPerItemValues(results, perItemValues)
          return results

  class ClinicalTrials(RemoteMetadataAdapter):
      def addGen3ExpectedFields(item, mappings, keepOriginalFields):
          ...
          location = ""
          if "Location" in item and len(item["Location"]) > 0:
              location = (
                  f"{item['Location'][0].get('LocationFacility', '')}, "
                  f"{item['Location'][0].get('LocationCity', '')}, "
                  f"{item['Location'][0].get('LocationState', '')}")
          results["location"] = location
          return results

      def normalizeToGen3MDSFields(self, data, **kwargs) -> Tuple[Dict, str]:
          ...
          for item in data["results"]:
              item = item["Study"]
              item = flatten(item)
              normalized_item = ClinicalTrials.addGen3ExpectedFields(
                  item, mappings, keepOriginalFields)
              results[item["NCTId"]] = {
                  "_guid_type": "discovery_metadata",
                  "gen3_discovery": normalized_item,
              }
          ...
  \<close>
  \<open>data\<close> is the list \<open>data["results"]\<close> of raw items, each a dictionary. A list has no
  method \<open>join\<close>, and a list or a dictionary cannot be a dictionary key. The formatting
  of a value inside an f-string is Python's \<open>str\<close>, a parameter of the model.
\<close>


definition add_mapped_fields ::
  "field_filter \<Rightarrow> jsonpath \<Rightarrow> pydict \<Rightarrow> pydict option \<Rightarrow> bool \<Rightarrow> py_error + (pydict \<times> pydict)" where
  "add_mapped_fields strip_html jsonpath item mappings keepOriginalFields =
     (case mappings of
        None \<Rightarrow> Inr (item, item)
      | Some m \<Rightarrow>
          (case mapFields strip_html jsonpath item m of
             Inl err \<Rightarrow> Inl err
           | Inr mapped_fields \<Rightarrow>
               if keepOriginalFields
               then Inr (dict_update item mapped_fields, dict_update item mapped_fields)
               else Inr (item, mapped_fields)))"

definition results_is_item :: "pydict option \<Rightarrow> bool \<Rightarrow> bool" where
  "results_is_item mappings keepOriginalFields = (mappings = None \<or> keepOriginalFields)"

fun is_list :: "pyval \<Rightarrow> bool" where
  "is_list (PList _) = True"
| "is_list _ = False"

definition PDAPS_addGen3ExpectedFields ::
  "field_filter \<Rightarrow> jsonpath \<Rightarrow> pydict \<Rightarrow> pydict option \<Rightarrow> bool \<Rightarrow> py_error + (pydict \<times> pydict)" where
  "PDAPS_addGen3ExpectedFields strip_html jsonpath item mappings keepOriginalFields =
     (case add_mapped_fields strip_html jsonpath item mappings keepOriginalFields of
        Inl err \<Rightarrow> Inl err
      | Inr (item', results) \<Rightarrow>
          (case dict_get results ''investigators'' of
             None \<Rightarrow> Inl KeyError
           | Some investigators \<Rightarrow> if is_list investigators then Inl AttributeError else Inr (item', results)))"

fun hashable :: "pyval \<Rightarrow> bool" where
  "hashable (PList _) = False"
| "hashable (PDict _) = False"
| "hashable _ = True"

definition new_entry :: "pydict \<Rightarrow> mds_entry" where
  "new_entry normalized_item = \<lparr>guid_type = ''discovery_metadata'', gen3_discovery = normalized_item\<rparr>"

fun PDAPS_normalize_loop ::
  "field_filter \<Rightarrow> jsonpath \<Rightarrow> pydict list \<Rightarrow> pydict option \<Rightarrow> bool \<Rightarrow>
   (pyval \<times> mds_entry) list \<Rightarrow> py_error + (pyval \<times> mds_entry) list" where
  "PDAPS_normalize_loop strip_html jsonpath [] mappings keepOriginalFields results = Inr results"
| "PDAPS_normalize_loop strip_html jsonpath (item # rest) mappings keepOriginalFields results =
     (case PDAPS_addGen3ExpectedFields strip_html jsonpath item mappings keepOriginalFields of
        Inl err \<Rightarrow> Inl err
      | Inr (item', normalized_item) \<Rightarrow>
          (case dict_get item' ''display_id'' of
             None \<Rightarrow> PDAPS_normalize_loop strip_html jsonpath rest mappings keepOriginalFields results
           | Some ident \<Rightarrow>
               if \<not> hashable ident then Inl TypeError
               else PDAPS_normalize_loop strip_html jsonpath rest mappings keepOriginalFields
                      (dict_set results ident (new_entry normalized_item))))"

definition PDAPS_normalizeToGen3MDSFields ::
  "field_filter \<Rightarrow> jsonpath \<Rightarrow> pydict list \<Rightarrow> pydict option \<Rightarrow> bool \<Rightarrow>
   (pyval \<times> pydict) list option \<Rightarrow> py_error + (pyval \<times> mds_entry) list" where
  "PDAPS_normalizeToGen3MDSFields strip_html jsonpath data mappings keepOriginalFields perItemValues =
     (case PDAPS_normalize_loop strip_html jsonpath data mappings keepOriginalFields [] of
        Inl err \<Rightarrow> Inl err
      | Inr results \<Rightarrow>
          (case perItemValues of
             None \<Rightarrow> Inr results
           | Some piv \<Rightarrow> Inr (setPerItemValues results piv)))"

fun py_len :: "pyval \<Rightarrow> py_error + nat" where
  "py_len (PList xs) = Inr (length xs)"
| "py_len (PStr s) = Inr (length s)"
| "py_len (PDict d) = Inr (length d)"
| "py_len _ = Inl TypeError"

fun first_item :: "pyval \<Rightarrow> py_error + pyval" where
  "first_item (PList (x # xs)) = Inr x"
| "first_item (PList []) = Inl IndexError"
| "first_item (PStr (c # cs)) = Inr (PStr [c])"
| "first_item (PStr []) = Inl IndexError"
| "first_item (PDict d) = Inl KeyError"
| "first_item _ = Inl TypeError"

fun get_or_empty :: "pyval \<Rightarrow> string \<Rightarrow> py_error + pyval" where
  "get_or_empty (PDict d) k = Inr (case dict_get d k of None \<Rightarrow> PStr '''' | Some v \<Rightarrow> v)"
| "get_or_empty _ k = Inl AttributeError"

definition location_of :: "(pyval \<Rightarrow> string) \<Rightarrow> pydict \<Rightarrow> py_error + string" where
  "location_of str item =
     (case dict_get item ''Location'' of
        None \<Rightarrow> Inr ''''
      | Some loc \<Rightarrow>
          (case py_len loc of
             Inl err \<Rightarrow> Inl err
           | Inr n \<Rightarrow>
               if n > 0 then
                 (case first_item loc of
                    Inl err \<Rightarrow> Inl err
                  | Inr l \<Rightarrow>
                      (case get_or_empty l ''LocationFacility'' of
                         Inl err \<Rightarrow> Inl err
                       | Inr facility \<Rightarrow>
                           (case get_or_empty l ''LocationCity'' of
                              Inl err \<Rightarrow> Inl err
                            | Inr city \<Rightarrow>
                                (case get_or_empty l ''LocationState'' of
                                   Inl err \<Rightarrow> Inl err
                                 | Inr state \<Rightarrow>
                                     Inr (str facility @ '', '' @ str city @ '', '' @ str state)))))
               else Inr ''''))"

definition ClinicalTrials_addGen3ExpectedFields ::
  "field_filter \<Rightarrow> jsonpath \<Rightarrow> (pyval \<Rightarrow> string) \<Rightarrow> pydict \<Rightarrow> pydict option \<Rightarrow> bool \<Rightarrow>
   py_error + (pydict \<times> pydict)" where
  "ClinicalTrials_addGen3ExpectedFields strip_html jsonpath str item mappings keepOriginalFields =
     (case add_mapped_fields strip_html jsonpath item mappings keepOriginalFields of
        Inl err \<Rightarrow> Inl err
      | Inr (item', results) \<Rightarrow>
          (case location_of str item' of
             Inl err \<Rightarrow> Inl err
           | Inr location \<Rightarrow>
               (let results' = dict_set results ''location'' (PStr location) in
                Inr (if results_is_item mappings keepOriginalFields then results' else item',
                     results'))))"

fun ClinicalTrials_normalize_loop ::
  "field_filter \<Rightarrow> jsonpath \<Rightarrow> (pyval \<Rightarrow> string) \<Rightarrow> pydict list \<Rightarrow> pydict option \<Rightarrow> bool \<Rightarrow>
   (pyval \<times> mds_entry) list \<Rightarrow> py_error + (pyval \<times> mds_entry) list" where
  "ClinicalTrials_normalize_loop strip_html jsonpath str [] mappings keepOriginalFields results =
     Inr results"
| "ClinicalTrials_normalize_loop strip_html jsonpath str (raw # rest) mappings keepOriginalFields results =
     (case dict_get raw ''Study'' of
        None \<Rightarrow> Inl KeyError
      | Some (PDict study) \<Rightarrow>
          (case ClinicalTrials_addGen3ExpectedFields strip_html jsonpath str
                  (flatten study None ''.'') mappings keepOriginalFields of
             Inl err \<Rightarrow> Inl err
           | Inr (item, normalized_item) \<Rightarrow>
               (case dict_get item ''NCTId'' of
                  None \<Rightarrow> Inl KeyError
                | Some ident \<Rightarrow>
                    if \<not> hashable ident then Inl TypeError
                    else ClinicalTrials_normalize_loop strip_html jsonpath str rest mappings
                           keepOriginalFields (dict_set results ident (new_entry normalized_item))))
      | Some _ \<Rightarrow> Inl AttributeError)"

definition ClinicalTrials_normalizeToGen3MDSFields ::
  "field_filter \<Rightarrow> jsonpath \<Rightarrow> (pyval \<Rightarrow> string) \<Rightarrow> pydict list \<Rightarrow> pydict option \<Rightarrow> bool \<Rightarrow>
   (pyval \<times> pydict) list option \<Rightarrow> py_error + (pyval \<times> mds_entry) list" where
  "ClinicalTrials_normalizeToGen3MDSFields strip_html jsonpath str data mappings keepOriginalFields
      perItemValues =
     (case ClinicalTrials_normalize_loop strip_html jsonpath str data mappings keepOriginalFields [] of
        Inl err \<Rightarrow> Inl err
      | Inr results \<Rightarrow>
          (case perItemValues of
             None \<Rightarrow> Inr results
           | Some piv \<Rightarrow> Inr (setPerItemValues results piv)))"

section \<open>ClinicalTrials: fetching\<close>










section \<open>Properties\<close>

subsection \<open>Dictionaries\<close>

lemma dict_update_Nil [simp]: "dict_update d [] = d"
  by (simp add: dict_update_def)

lemma dict_update_Cons [simp]: "dict_update d ((k, v) # xs) = dict_update (AList.update k v d) xs"
  by (simp add: dict_update_def dict_set_def)

lemma dict_update_append: "dict_update d (xs @ ys) = dict_update (dict_update d xs) ys"
  by (simp add: dict_update_def)

lemma update_swap_existing:
  "k \<in> fst ` set al \<Longrightarrow> k \<noteq> k' \<Longrightarrow>
   AList.update k v (AList.update k' v' al) = AList.update k' v' (AList.update k v al)"
  by (induction al) auto

lemma update_dict_update_existing:
  "k \<in> fst ` set d \<Longrightarrow> k \<notin> fst ` set xs \<Longrightarrow>
   AList.update k v (dict_update d xs) = dict_update (AList.update k v d) xs"
proof (induction xs arbitrary: d)
  case Nil
  then show ?case by simp
next
  case (Cons x xs)
  obtain k' v' where x: "x = (k', v')" by (cases x)
  from Cons.prems have ne: "k \<noteq> k'" and notin: "k \<notin> fst ` set xs" by (auto simp: x)
  have "k \<in> fst ` set (AList.update k' v' d)" using Cons.prems(1) by (simp add: dom_update)
  then have "AList.update k v (dict_update (AList.update k' v' d) xs)
           = dict_update (AList.update k v (AList.update k' v' d)) xs"
    using Cons.IH notin by blast
  then show ?case using update_swap_existing [OF Cons.prems(1) ne] by (simp add: x)
qed

lemma dict_update_keys: "fst ` set (dict_update d xs) = fst ` set d \<union> fst ` set xs"
proof (induction xs arbitrary: d)
  case Nil
  then show ?case by simp
next
  case (Cons x xs)
  obtain k v where x: "x = (k, v)" by (cases x)
  have "fst ` set (dict_update d (x # xs)) = fst ` set (AList.update k v d) \<union> fst ` set xs"
    using Cons.IH [of "AList.update k v d"] by (simp add: x)
  then show ?case by (simp add: x dom_update)
qed

lemma dict_update_distinct: "distinct (map fst d) \<Longrightarrow> distinct (map fst (dict_update d xs))"
  by (induction xs arbitrary: d) (auto simp: distinct_update)

lemma dict_of_distinct: "distinct (map fst (dict_of xs))"
  by (simp add: dict_of_def dict_update_distinct)

text \<open>Updating with a distinct-key list entry by entry, with one entry replaced in place.\<close>

lemma dict_update_update_distinct:
  "distinct (map fst D) \<Longrightarrow>
   dict_update acc (AList.update k v D) = AList.update k v (dict_update acc D)"
proof (induction D arbitrary: acc)
  case Nil
  then show ?case by simp
next
  case (Cons x D)
  obtain k' v' where x: "x = (k', v')" by (cases x)
  show ?case
  proof (cases "k = k'")
    case True
    have "k \<notin> fst ` set D" using Cons.prems by (auto simp: x True)
    moreover have "k \<in> fst ` set (AList.update k v' acc)" by (simp add: dom_update)
    ultimately have "AList.update k v (dict_update (AList.update k v' acc) D)
        = dict_update (AList.update k v (AList.update k v' acc)) D"
      using update_dict_update_existing [of k "AList.update k v' acc" D v] by blast
    then show ?thesis by (simp add: x True)
  next
    case False
    then show ?thesis using Cons by (simp add: x)
  qed
qed

lemma dict_update_dict_of: "dict_update acc (dict_of xs) = dict_update acc xs"
proof (induction xs rule: rev_induct)
  case Nil
  then show ?case by (simp add: dict_of_def)
next
  case (snoc x xs)
  obtain k v where x: "x = (k, v)" by (cases x)
  have "dict_of (xs @ [x]) = AList.update k v (dict_of xs)"
    by (simp add: dict_of_def dict_update_append x)
  then show ?case
    using snoc dict_update_update_distinct [OF dict_of_distinct, of acc k v xs]
    by (simp add: dict_update_append x)
qed

lemma dict_update_flatten_items:
  "dict_update acc (flatten d None sep) = dict_update acc (leaves d)"
  "dict_update acc (flatten_items d None sep) = dict_update acc (leaves d)"
proof (induction d "None :: string option" sep and d "None :: string option" sep arbitrary: acc and acc rule: flatten_flatten_items.induct)
  case (1 dictionary separator)
  then show ?case by (simp add: dict_update_dict_of)
next
  case (2 separator)
  then show ?case by simp
next
  case (3 key "value" rest separator)
  then show ?case by (simp add: dict_update_append)
qed (simp_all add: new_key_def)

lemma update_existing_keys: "k \<in> fst ` set al \<Longrightarrow> map fst (AList.update k v al) = map fst al"
  by (induction al) auto

lemma set_item_values_keys: "map fst (set_item_values d vs) = map fst d"
  unfolding set_item_values_def
  by (induction vs arbitrary: d)
     (auto simp: dict_contains_def dict_set_def update_existing_keys)

lemma set_update_subset: "set (AList.update k v al) \<subseteq> insert (k, v) (set al)"
  by (induction al) auto

lemma set_item_values_origin:
  "(k, v) \<in> set (set_item_values d vs) \<Longrightarrow> (k, v) \<in> set d \<or> (k, v) \<in> set vs"
  unfolding set_item_values_def
proof (induction vs arbitrary: d)
  case Nil
  then show ?case by simp
next
  case (Cons x vs)
  obtain k' v' where x: "x = (k', v')" by (cases x)
  let ?d' = "if dict_contains d k' then dict_set d k' v' else d"
  from Cons.prems have "(k, v) \<in> set (foldl (\<lambda>d (k, v). if dict_contains d k then dict_set d k v else d) ?d' vs)"
    by (simp add: x)
  then have "(k, v) \<in> set ?d' \<or> (k, v) \<in> set vs" by (rule Cons.IH)
  moreover have "set ?d' \<subseteq> insert (k', v') (set d)"
    using set_update_subset [of k' v' d] by (auto simp: dict_set_def)
  ultimately show ?case by (auto simp: x)
qed

lemma set_item_keys: "map fst (set_item items ident values) = map fst items"
  by (auto simp: set_item_def dict_contains_def dict_set_def update_existing_keys split: option.splits)

lemma setPerItemValues_Cons:
  "setPerItemValues items ((ident, values) # rest) = setPerItemValues (set_item items ident values) rest"
  by (simp add: setPerItemValues_def)

lemma setPerItemValues_keys: "map fst (setPerItemValues items piv) = map fst items"
proof (induction piv arbitrary: items)
  case Nil
  then show ?case by (simp add: setPerItemValues_def)
next
  case (Cons x piv)
  then show ?case by (cases x) (simp add: setPerItemValues_Cons set_item_keys)
qed

lemma dict_contains_get: "dict_contains d k \<longleftrightarrow> dict_get d k \<noteq> None"
  by (simp add: dict_contains_def dict_get_def map_of_eq_None_iff)

lemma set_item_get:
  "dict_get (set_item items ident values) i =
     (case dict_get items ident of
        None \<Rightarrow> dict_get items i
      | Some e \<Rightarrow>
          if i = ident
          then Some (e\<lparr>gen3_discovery := set_item_values (gen3_discovery e) values\<rparr>)
          else dict_get items i)"
proof (cases "dict_get items ident")
  case None
  then show ?thesis by (simp add: set_item_def dict_contains_get)
next
  case (Some e)
  then show ?thesis
    by (simp add: set_item_def dict_contains_get) (simp add: dict_get_def dict_set_def update_conv')
qed

lemma set_item_other: "i \<noteq> ident \<Longrightarrow> dict_get (set_item items ident values) i = dict_get items i"
  by (simp add: set_item_get split: option.splits)

lemma set_item_same:
  "dict_get items ident = Some e \<Longrightarrow>
   dict_get (set_item items ident values) ident
     = Some (e\<lparr>gen3_discovery := set_item_values (gen3_discovery e) values\<rparr>)"
  by (simp add: set_item_get)

lemma set_item_none:
  "dict_get items i = None \<Longrightarrow> dict_get (set_item items ident values) i = None"
  by (auto simp: set_item_get split: option.splits)

lemma setPerItemValues_absent:
  "ident \<notin> fst ` set piv \<Longrightarrow> dict_get (setPerItemValues items piv) ident = dict_get items ident"
proof (induction piv arbitrary: items)
  case Nil
  then show ?case by (simp add: setPerItemValues_def)
next
  case (Cons x piv)
  obtain i vs where x: "x = (i, vs)" by (cases x)
  with Cons.prems have "ident \<noteq> i" "ident \<notin> fst ` set piv" by auto
  then show ?case using Cons.IH by (simp add: x setPerItemValues_Cons set_item_other)
qed

lemma setPerItemValues_entry:
  "dict_get (setPerItemValues items piv) ident = Some e' \<Longrightarrow>
   \<exists>e. dict_get items ident = Some e \<and> overridden {vs. (ident, vs) \<in> set piv} e e'"
proof (induction piv arbitrary: items e')
  case Nil
  then show ?case by (simp add: setPerItemValues_def overridden_def)
next
  case (Cons x piv)
  obtain i vs where x: "x = (i, vs)" by (cases x)
  from Cons.prems have "dict_get (setPerItemValues (set_item items i vs) piv) ident = Some e'"
    by (simp add: x setPerItemValues_Cons)
  then obtain e1 where e1: "dict_get (set_item items i vs) ident = Some e1"
    and ov: "overridden {vs. (ident, vs) \<in> set piv} e1 e'"
    using Cons.IH by blast
  show ?case
  proof (cases "i = ident")
    case False
    then have "dict_get items ident = Some e1" using e1 by (simp add: set_item_other)
    moreover have "overridden {vs. (ident, vs) \<in> set (x # piv)} e1 e'"
      using ov by (auto simp: overridden_def x)
    ultimately show ?thesis by blast
  next
    case True
    obtain e where e: "dict_get items ident = Some e"
      using e1 set_item_none [of items ident i vs] by (cases "dict_get items ident") auto
    then have e1_eq: "e1 = e\<lparr>gen3_discovery := set_item_values (gen3_discovery e) vs\<rparr>"
      using e1 set_item_same [of items ident e vs] by (simp add: True)
    have "overridden {vs. (ident, vs) \<in> set (x # piv)} e e'"
      unfolding overridden_def
    proof (intro conjI allI impI)
      show "guid_type e' = guid_type e" using ov by (simp add: overridden_def e1_eq)
      show "map fst (gen3_discovery e') = map fst (gen3_discovery e)"
        using ov by (simp add: overridden_def e1_eq set_item_values_keys)
    next
      fix k v assume "(k, v) \<in> set (gen3_discovery e')"
      then consider "(k, v) \<in> set (gen3_discovery e1)" | "\<exists>vs \<in> {vs. (ident, vs) \<in> set piv}. (k, v) \<in> set vs"
        using ov by (auto simp: overridden_def)
      then show "(k, v) \<in> set (gen3_discovery e) \<or> (\<exists>vs\<in>{vs. (ident, vs) \<in> set (x # piv)}. (k, v) \<in> set vs)"
      proof cases
        case 1
        then have "(k, v) \<in> set (gen3_discovery e) \<or> (k, v) \<in> set vs"
          using set_item_values_origin by (simp add: e1_eq)
        then show ?thesis by (auto simp: x True)
      next
        case 2
        then show ?thesis by auto
      qed
    qed
    then show ?thesis using e by blast
  qed
qed

subsection \<open>The claims\<close>



text \<open>
  C1. \<open>get_json_path_value\<close> returns the empty string when the expression is \<open>None\<close> or
  matches nothing, the matched value itself when there is exactly one match, and the
  list of the matched values, in the order of the matches, when there are several.
\<close>

theorem get_json_path_value_arity:
  "get_json_path_value jp PNone d = Inr (PStr '''') \<and>
   (p \<noteq> PNone \<and> jp p d = Inr [] \<longrightarrow> get_json_path_value jp p d = Inr (PStr '''')) \<and>
   (p \<noteq> PNone \<and> jp p d = Inr [x] \<longrightarrow> get_json_path_value jp p d = Inr x) \<and>
   (p \<noteq> PNone \<and> jp p d = Inr vs \<and> 1 < length vs \<longrightarrow>
      get_json_path_value jp p d = Inr (PList vs))"
  by (simp add: get_json_path_value_def)

theorem get_json_path_value_arity_witness:
  "get_json_path_value (\<lambda>e d. Inr []) (PStr ''a'') (PDict []) = Inr (PStr '''') \<and>
   get_json_path_value (\<lambda>e d. Inr [PInt 7]) (PStr ''a'') (PDict [(''a'', PInt 7)]) = Inr (PInt 7) \<and>
   get_json_path_value (\<lambda>e d. Inr [PInt 1, PInt 2, PInt 3]) (PStr ''[*].a'')
       (PList [PDict [(''a'', PInt 1)], PDict [(''a'', PInt 2)], PDict [(''a'', PInt 3)]])
     = Inr (PList [PInt 1, PInt 2, PInt 3])"
  using get_json_path_value_arity [of "\<lambda>e d. Inr []" "PDict []" "PStr ''a''"]
    get_json_path_value_arity [of "\<lambda>e d. Inr [PInt 7]" "PDict [(''a'', PInt 7)]" "PStr ''a''" "PInt 7"]
    get_json_path_value_arity [of "\<lambda>e d. Inr [PInt 1, PInt 2, PInt 3]"
      "PList [PDict [(''a'', PInt 1)], PDict [(''a'', PInt 2)], PDict [(''a'', PInt 3)]]"
      "PStr ''[*].a''" _ "[PInt 1, PInt 2, PInt 3]"]
  by simp

lemma dict_update_subset: "set (dict_update d xs) \<subseteq> set d \<union> set xs"
proof (induction xs arbitrary: d)
  case Nil
  then show ?case by simp
next
  case (Cons x xs)
  obtain k v where x: "x = (k, v)" by (cases x)
  have "set (dict_update (AList.update k v d) xs) \<subseteq> set (AList.update k v d) \<union> set xs"
    by (rule Cons.IH)
  then show ?case using set_update_subset [of k v d] by (auto simp: x)
qed

lemma leaves_no_dict: "(k, v) \<in> set (leaves d) \<Longrightarrow> \<not> is_dict v"
  by (induction d arbitrary: k v rule: leaves.induct) auto

lemma flatten_is_flat: "list_all (\<lambda>(k, v). \<not> is_dict v) (dict_of (leaves d))"
proof -
  have "set (dict_of (leaves d)) \<subseteq> set (leaves d)"
    using dict_update_subset [of "[]" "leaves d"] by (simp add: dict_of_def)
  then show ?thesis using leaves_no_dict by (fastforce simp: list_all_iff)
qed

text \<open>
  C7 (as the claim states it, refuted). The claim has the key of a nested value be the
  dot-joined path from the root. The recursive call of \<open>flatten\<close> passes \<open>False\<close> as the
  parent key, so \<open>{"a": {"b": 1}}\<close> flattens to \<open>{"b": 1}\<close>: there is no key \<open>a.b\<close>.
\<close>

theorem flatten_not_dot_joined:
  "flatten [(''a'', PDict [(''b'', PInt 1)])] None ''.'' = [(''b'', PInt 1)] \<and>
   \<not> dict_contains (flatten [(''a'', PDict [(''b'', PInt 1)])] None ''.'') ''a.b''"
  by (simp add: dict_of_def dict_contains_def new_key_def)

text \<open>
  C7 (amended). \<open>flatten\<close>, called with the default parent key as the normalization does,
  produces a flat dictionary (no value is a dictionary) in which a value nested inside
  sub-objects is keyed by its own innermost key alone: the result is the dictionary built
  from the leaf entries in traversal order, so of two leaves with the same key the later
  one wins.
\<close>

theorem flatten_leaf_keys:
  "flatten d None sep = dict_of (leaves d) \<and>
   list_all (\<lambda>(k, v). \<not> is_dict v) (flatten d None sep)"
proof -
  have "flatten d None sep = dict_of (leaves d)"
    using dict_update_flatten_items(2) [of "[]" d sep] by (simp add: dict_of_def)
  then show ?thesis using flatten_is_flat [of d] by simp
qed

text \<open>
  C4. The override merge keeps the set of records and, in every record, the keys of its
  \<open>gen3_discovery\<close> map (so no key is introduced and only a key already there can be
  overwritten); a value of the result is the old one or one an override entry of that id
  gives for that key; a record whose id the override map does not have is unchanged.
\<close>

theorem setPerItemValues_frame:
  "map fst (setPerItemValues items piv) = map fst items \<and>
   (ident \<notin> fst ` set piv \<longrightarrow>
      dict_get (setPerItemValues items piv) ident = dict_get items ident) \<and>
   (dict_get (setPerItemValues items piv) ident = Some e' \<longrightarrow>
      (\<exists>e. dict_get items ident = Some e \<and>
           guid_type e' = guid_type e \<and>
           map fst (gen3_discovery e') = map fst (gen3_discovery e) \<and>
           (\<forall>k v. (k, v) \<in> set (gen3_discovery e') \<longrightarrow>
              (k, v) \<in> set (gen3_discovery e) \<or>
              (\<exists>vs. (ident, vs) \<in> set piv \<and> (k, v) \<in> set vs))))"
proof (intro conjI impI)
  show "map fst (setPerItemValues items piv) = map fst items"
    by (rule setPerItemValues_keys)
  show "dict_get (setPerItemValues items piv) ident = dict_get items ident"
    if "ident \<notin> fst ` set piv"
    using that by (rule setPerItemValues_absent)
  show "\<exists>e. dict_get items ident = Some e \<and>
           guid_type e' = guid_type e \<and>
           map fst (gen3_discovery e') = map fst (gen3_discovery e) \<and>
           (\<forall>k v. (k, v) \<in> set (gen3_discovery e') \<longrightarrow>
              (k, v) \<in> set (gen3_discovery e) \<or>
              (\<exists>vs. (ident, vs) \<in> set piv \<and> (k, v) \<in> set vs))"
    if "dict_get (setPerItemValues items piv) ident = Some e'"
    using setPerItemValues_entry [OF that] unfolding overridden_def by blast
qed

theorem setPerItemValues_frame_witness:
  "''h'' \<notin> fst ` set [(''g'', [(''a'', PInt 2), (''newkey'', PInt 9)])] \<and>
   dict_get (setPerItemValues
      [(''g'', \<lparr>guid_type = ''discovery_metadata'', gen3_discovery = [(''a'', PInt 1)]\<rparr>),
       (''h'', \<lparr>guid_type = ''discovery_metadata'', gen3_discovery = [(''a'', PInt 5)]\<rparr>)]
      [(''g'', [(''a'', PInt 2), (''newkey'', PInt 9)])]) ''h''
     = Some \<lparr>guid_type = ''discovery_metadata'', gen3_discovery = [(''a'', PInt 5)]\<rparr> \<and>
   dict_get (setPerItemValues
      [(''g'', \<lparr>guid_type = ''discovery_metadata'', gen3_discovery = [(''a'', PInt 1)]\<rparr>),
       (''h'', \<lparr>guid_type = ''discovery_metadata'', gen3_discovery = [(''a'', PInt 5)]\<rparr>)]
      [(''g'', [(''a'', PInt 2), (''newkey'', PInt 9)])]) ''g''
     = Some \<lparr>guid_type = ''discovery_metadata'', gen3_discovery = [(''a'', PInt 2)]\<rparr>"
  using setPerItemValues_frame
    [of "[(''g'', \<lparr>guid_type = ''discovery_metadata'', gen3_discovery = [(''a'', PInt 1)]\<rparr>),
          (''h'', \<lparr>guid_type = ''discovery_metadata'', gen3_discovery = [(''a'', PInt 5)]\<rparr>)]"
        "[(''g'', [(''a'', PInt 2), (''newkey'', PInt 9)])]" "''h''"]
  by (simp add: setPerItemValues_def set_item_def set_item_values_def dict_contains_def
      dict_get_def dict_set_def)

lemma PDAPS_loop_failing_item:
  "item \<in> set data \<Longrightarrow>
   isl (PDAPS_addGen3ExpectedFields strip_html jsonpath item mappings keep) \<Longrightarrow>
   isl (PDAPS_normalize_loop strip_html jsonpath data mappings keep results)"
proof (induction data arbitrary: results)
  case Nil
  then show ?case by simp
next
  case (Cons x data)
  show ?case
  proof (cases "PDAPS_addGen3ExpectedFields strip_html jsonpath x mappings keep")
    case (Inl err)
    then show ?thesis by simp
  next
    case (Inr pair)
    with Cons.prems have "item \<in> set data" by auto
    then have "isl (PDAPS_normalize_loop strip_html jsonpath data mappings keep r)" for r
      using Cons.IH Cons.prems(2) by blast
    then show ?thesis using Inr by (auto split: prod.splits option.splits)
  qed
qed

lemma PDAPS_missing_display_id_skipped:
  "PDAPS_addGen3ExpectedFields strip_html jsonpath item mappings keep = Inr (item', normalized) \<Longrightarrow>
   \<not> dict_contains item' ''display_id'' \<Longrightarrow>
   PDAPS_normalize_loop strip_html jsonpath (item # rest) mappings keep results
     = PDAPS_normalize_loop strip_html jsonpath rest mappings keep results"
  by (simp add: dict_contains_get)

text \<open>
  C10. When the field set after the mapping step holds a list under \<open>investigators\<close>,
  \<open>PDAPS.addGen3ExpectedFields\<close> raises (\<open>AttributeError\<close>: a list has no \<open>join\<close>) and joins
  nothing; a batch that contains such an item is not normalized: the whole call raises.
\<close>

theorem PDAPS_investigators_list_raises:
  assumes "add_mapped_fields strip_html jsonpath item mappings keep = Inr (item', results)"
    and "dict_get results ''investigators'' = Some (PList xs)"
  shows "PDAPS_addGen3ExpectedFields strip_html jsonpath item mappings keep = Inl AttributeError \<and>
         (item \<in> set data \<longrightarrow>
            isl (PDAPS_normalizeToGen3MDSFields strip_html jsonpath data mappings keep perItemValues))"
proof -
  have raises: "PDAPS_addGen3ExpectedFields strip_html jsonpath item mappings keep = Inl AttributeError"
    using assms by (simp add: PDAPS_addGen3ExpectedFields_def)
  have "isl (PDAPS_normalizeToGen3MDSFields strip_html jsonpath data mappings keep perItemValues)"
    if "item \<in> set data"
  proof -
    have "isl (PDAPS_normalize_loop strip_html jsonpath data mappings keep [])"
      using that raises PDAPS_loop_failing_item [of item data strip_html jsonpath mappings keep "[]"]
      by simp
    then show ?thesis
      by (auto simp: PDAPS_normalizeToGen3MDSFields_def split: sum.splits)
  qed
  with raises show ?thesis by blast
qed

theorem PDAPS_investigators_list_raises_witness:
  "add_mapped_fields (\<lambda>v. Inr v) (\<lambda>e d. Inr [])
       [(''display_id'', PStr ''d1''), (''investigators'', PList [PStr ''A'', PStr ''B''])] None True
     = Inr ([(''display_id'', PStr ''d1''), (''investigators'', PList [PStr ''A'', PStr ''B''])],
            [(''display_id'', PStr ''d1''), (''investigators'', PList [PStr ''A'', PStr ''B''])]) \<and>
   dict_get [(''display_id'', PStr ''d1''), (''investigators'', PList [PStr ''A'', PStr ''B''])]
       ''investigators'' = Some (PList [PStr ''A'', PStr ''B'']) \<and>
   PDAPS_addGen3ExpectedFields (\<lambda>v. Inr v) (\<lambda>e d. Inr [])
       [(''display_id'', PStr ''d1''), (''investigators'', PList [PStr ''A'', PStr ''B''])] None True
     = Inl AttributeError \<and>
   isl (PDAPS_normalizeToGen3MDSFields (\<lambda>v. Inr v) (\<lambda>e d. Inr [])
       [[(''display_id'', PStr ''d0''), (''investigators'', PStr ''C'')],
        [(''display_id'', PStr ''d1''), (''investigators'', PList [PStr ''A'', PStr ''B''])]]
       None True None)"
  using PDAPS_investigators_list_raises
    [of "\<lambda>v. Inr v" "\<lambda>e d. Inr []"
        "[(''display_id'', PStr ''d1''), (''investigators'', PList [PStr ''A'', PStr ''B''])]"
        None True
        "[(''display_id'', PStr ''d1''), (''investigators'', PList [PStr ''A'', PStr ''B''])]"
        "[(''display_id'', PStr ''d1''), (''investigators'', PList [PStr ''A'', PStr ''B''])]"
        "[PStr ''A'', PStr ''B'']"
        "[[(''display_id'', PStr ''d0''), (''investigators'', PStr ''C'')],
          [(''display_id'', PStr ''d1''), (''investigators'', PList [PStr ''A'', PStr ''B''])]]"
        None]
  by (simp add: add_mapped_fields_def dict_get_def)

text \<open>
  C8 (the code at a failing input). The claim has every adapter skip a raw item that
  lacks its identifying key. \<open>PDAPS\<close> does (\<open>PDAPS_missing_display_id_skipped\<close>);
  \<open>ClinicalTrials\<close> indexes \<open>item["NCTId"]\<close> unguarded: a batch of one complete study and
  one study without \<open>NCTId\<close> raises \<open>KeyError\<close>, and the complete study is lost with it.
\<close>

theorem ClinicalTrials_missing_NCTId_raises:
  "ClinicalTrials_normalizeToGen3MDSFields strip_html jsonpath str
     [[(''Study'', PDict [(''ProtocolSection'',
          PDict [(''NCTId'', PStr ''NCT01''), (''BriefTitle'', PStr ''one'')])])],
      [(''Study'', PDict [(''ProtocolSection'', PDict [(''BriefTitle'', PStr ''two'')])])]]
     None True None
   = Inl KeyError"
  by (simp add: ClinicalTrials_normalizeToGen3MDSFields_def
      ClinicalTrials_addGen3ExpectedFields_def add_mapped_fields_def location_of_def
      results_is_item_def dict_of_def new_key_def dict_get_def dict_set_def Let_def new_entry_def)

text \<open>
  C5 (the code at a failing input). The claim has every spec value that is neither a
  dictionary nor a string with the marker taken verbatim. For a literal that is a number
  (or a boolean, or \<open>None\<close>) the test \<open>"path:" in value\<close> raises \<open>TypeError\<close>, and \<open>mapFields\<close>
  returns nothing.
\<close>

theorem mapFields_number_literal_raises:
  "mapFields strip_html jsonpath item [(''count'', PInt 5)] = Inl TypeError"
  by (simp add: mapFields_def)






end
